theory Spec2Isabelle
  imports Main
begin

section \<open>The clippy wrapper \<^verbatim>\<open>contrib/run_clippy.py\<close>\<close>

text \<open>
  The script builds a fixed argument vector, prints it, runs it as a child process with
  \<^verbatim>\<open>subprocess.run\<close> and hands the child's return code to \<^verbatim>\<open>sys.exit\<close>.
  Everything it does is an effect on its host, so the embedding is a small effect monad:
  a computation reads the host, appends the observable events to a trace, and ends by
  returning a value, by raising a Python exception, or by never getting control back.

  The script is embedded twice, with the same statements and two readings of
  \<^verbatim>\<open>print\<close>. In \<open>main\<close> standard output takes every line at once, as a terminal
  does; this is the order of the script's own calls. In \<open>main_console\<close> the
  \<^verbatim>\<open>sys.stdout\<close> of the interpreter stands between \<^verbatim>\<open>print\<close> and standard
  output: it may buffer the line until the interpreter exits, and its write may fail. On a
  host whose standard output is not block-buffered and does not fail the two agree
  (lemma \<open>console_is_main\<close>).
\<close>

subsection \<open>Strings\<close>

text \<open>\<^verbatim>\<open>sep.join(xs)\<close>: the elements of \<open>xs\<close> with \<open>sep\<close> between neighbours.\<close>

fun str_join :: "string \<Rightarrow> string list \<Rightarrow> string" where
  "str_join sep [] = []"
| "str_join sep [x] = x"
| "str_join sep (x # y # ys) = x @ sep @ str_join sep (y # ys)"

text \<open>
  Tokenising on whitespace, as \<^verbatim>\<open>str.split()\<close> without arguments does: runs of
  whitespace separate the tokens and no token is empty. It is the reading of "tokenized"
  against which the printed line is compared; the script itself never splits a string.
\<close>

definition is_space :: "char \<Rightarrow> bool" where
  "is_space c = (c = CHR '' '' \<or> c = CHR 0x09 \<or> c = CHR 0x0A \<or> c = CHR 0x0B
                 \<or> c = CHR 0x0C \<or> c = CHR 0x0D \<or> c = CHR 0x1C \<or> c = CHR 0x1D
                 \<or> c = CHR 0x1E \<or> c = CHR 0x1F \<or> c = CHR 0x85 \<or> c = CHR 0xA0)"

fun split_ws :: "string \<Rightarrow> string \<Rightarrow> string list" where
  "split_ws cur [] = (if cur = [] then [] else [cur])"
| "split_ws cur (c # cs) =
     (if is_space c
      then (if cur = [] then split_ws [] cs else cur # split_ws [] cs)
      else split_ws (cur @ [c]) cs)"

definition str_split :: "string \<Rightarrow> string list" where
  "str_split s = split_ws [] s"

subsection \<open>The host and the effects of the script\<close>

text \<open>
  Values of keyword arguments, and the keyword arguments of a call in the order written.
\<close>

datatype pyval = PyNone | PyBool bool | PyInt int | PyStr string

type_synonym kwargs = "(string \<times> pyval) list"

text \<open>
  What creating a child process can come to: the program is not found or cannot be started
  (an \<^verbatim>\<open>OSError\<close> subclass, given by its class name and its message), the child runs
  and ends with a return code, or the child never ends and \<^verbatim>\<open>subprocess.run\<close> blocks.
\<close>

datatype spawn_result = LaunchFailure string string | Completed int | NeverExits

text \<open>
  How the interpreter sets up \<^verbatim>\<open>sys.stdout\<close>: line-buffered on a terminal,
  block-buffered on a pipe or a file, unbuffered under \<^verbatim>\<open>python -u\<close> or
  \<^verbatim>\<open>PYTHONUNBUFFERED\<close>.
\<close>

datatype buffering = LineBuffered | BlockBuffered | Unbuffered

text \<open>
  The host is everything outside the script that could influence it: the command line,
  the environment variables, what the operating system does with a request to run a
  program, how standard output is buffered, and the exception (class name and message)
  with which a write to standard output fails, if it fails.
\<close>

record host =
  argv :: "string list"
  environ :: "string \<Rightarrow> string option"
  os_spawn :: "string list \<Rightarrow> kwargs \<Rightarrow> spawn_result"
  stdout_buffering :: buffering
  stdout_error :: "(string \<times> string) option"

text \<open>
  The events: text written to standard output, a process-creation call with its argument
  vector and keyword arguments, and text that \<^verbatim>\<open>sys.stdout\<close> keeps in its buffer,
  not yet written.
\<close>

datatype event = Stdout string | Spawn "string list" kwargs | Buffered string

text \<open>\<^verbatim>\<open>sys.exit(n)\<close> raises \<^verbatim>\<open>SystemExit(n)\<close>; every other exception is a class name
  and a message.\<close>

datatype pyexn = SystemExit int | PyError string string

datatype 'a result = Return 'a | Raise pyexn | Blocked

type_synonym 'a py = "host \<Rightarrow> event list \<Rightarrow> 'a result \<times> event list"

definition return_py :: "'a \<Rightarrow> 'a py" where
  "return_py x = (\<lambda>h t. (Return x, t))"

text \<open>Sequencing: an exception or a blocked call ends the computation where it stands
  (the script has no \<^verbatim>\<open>try\<close>).\<close>

definition bind_py :: "'a py \<Rightarrow> ('a \<Rightarrow> 'b py) \<Rightarrow> 'b py" where
  "bind_py m f = (\<lambda>h t.
     case m h t of
       (Return x, t') \<Rightarrow> f x h t'
     | (Raise e, t') \<Rightarrow> (Raise e, t')
     | (Blocked, t') \<Rightarrow> (Blocked, t'))"

text \<open>
  \<^verbatim>\<open>print(s)\<close> on a standard output that takes every line at once and without
  error, as a terminal does: \<open>s\<close> and a newline are written. The print of a buffered or
  failing standard output is \<open>console_print\<close> below.
\<close>

definition py_print :: "string \<Rightarrow> unit py" where
  "py_print s = (\<lambda>h t. (Return (), t @ [Stdout (s @ [CHR 0x0A])]))"

text \<open>The \<^verbatim>\<open>CompletedProcess\<close> object that \<^verbatim>\<open>subprocess.run\<close> returns.\<close>

record completed_process =
  args :: "string list"
  returncode :: int

definition subprocess_run :: "string list \<Rightarrow> kwargs \<Rightarrow> completed_process py" where
  "subprocess_run a kw = (\<lambda>h t.
     (case os_spawn h a kw of
        LaunchFailure c m \<Rightarrow> Raise (PyError c m)
      | Completed n \<Rightarrow> Return \<lparr>args = a, returncode = n\<rparr>
      | NeverExits \<Rightarrow> Blocked,
      t @ [Spawn a kw]))"

definition sys_exit :: "int \<Rightarrow> unit py" where
  "sys_exit n = (\<lambda>h t. (Raise (SystemExit n), t))"

subsection \<open>The script\<close>

text \<open>Lines 13 to 20: the list bound to the local variable \<^verbatim>\<open>cmd\<close>.\<close>

definition cmd :: "string list" where
  "cmd = [''cargo'', ''clippy'',
          ''--workspace'',
          ''--all-features'',
          ''--all-targets'',
          ''--target-dir'', ''target/clippy'',
          ''--'', ''-D'', ''warnings'', ''-A'', ''mismatched_lifetime_syntaxes'']"

text \<open>Lines 22 to 24: print, run, return the return code.\<close>

definition main :: "int py" where
  "main =
     bind_py (py_print (''Running: '' @ str_join '' '' cmd)) (\<lambda>_.
     bind_py (subprocess_run cmd []) (\<lambda>result.
     return_py (returncode result)))"

text \<open>
  The module body. The imports and the \<^verbatim>\<open>def\<close> have no effect on the host; the last
  statement runs only when the module's \<^verbatim>\<open>__name__\<close> is \<^verbatim>\<open>"__main__"\<close>.
\<close>

definition run_clippy_module :: "string \<Rightarrow> unit py" where
  "run_clippy_module name =
     (if name = ''__main__'' then bind_py main sys_exit else return_py ())"

subsection \<open>The interpreter around the script\<close>

text \<open>
  How the process of the script ends. \<^verbatim>\<open>SystemExit(n)\<close> hands \<open>n\<close> to the host's
  exit call, and the status the parent sees is its low eight bits, \<open>n mod 256\<close>; an
  exception nobody caught makes the interpreter write a traceback, whose last line is the
  class name and the message, and end with status 1; a blocked call never ends.
\<close>

datatype process_end = Exited int | Uncaught string string | Hung

definition python3 :: "host \<Rightarrow> process_end \<times> event list" where
  "python3 h =
     (case run_clippy_module ''__main__'' h [] of
        (Return u, t) \<Rightarrow> (Exited 0, t)
      | (Raise (SystemExit n), t) \<Rightarrow> (Exited n, t)
      | (Raise (PyError c m), t) \<Rightarrow> (Uncaught c m, t)
      | (Blocked, t) \<Rightarrow> (Hung, t))"

fun exit_status :: "process_end \<Rightarrow> int option" where
  "exit_status (Exited n) = Some (n mod 256)"
| "exit_status (Uncaught c m) = Some 1"
| "exit_status Hung = None"

fun error_text :: "process_end \<Rightarrow> string" where
  "error_text (Exited n) = []"
| "error_text (Uncaught c m) = c @ '': '' @ m"
| "error_text Hung = []"

subsection \<open>Observations on a trace\<close>

fun spawns :: "event list \<Rightarrow> (string list \<times> kwargs) list" where
  "spawns [] = []"
| "spawns (Spawn a kw # es) = (a, kw) # spawns es"
| "spawns (Stdout s # es) = spawns es"
| "spawns (Buffered s # es) = spawns es"

fun stdout_text :: "event list \<Rightarrow> string" where
  "stdout_text [] = []"
| "stdout_text (Stdout s # es) = s @ stdout_text es"
| "stdout_text (Spawn a kw # es) = stdout_text es"
| "stdout_text (Buffered s # es) = stdout_text es"

text \<open>The keyword arguments of all the process-creation calls.\<close>

fun spawn_kwargs :: "event list \<Rightarrow> kwargs" where
  "spawn_kwargs [] = []"
| "spawn_kwargs (Spawn a kw # es) = kw @ spawn_kwargs es"
| "spawn_kwargs (Stdout s # es) = spawn_kwargs es"
| "spawn_kwargs (Buffered s # es) = spawn_kwargs es"



text \<open>
  What \<^verbatim>\<open>subprocess.run\<close> does with its keywords before it creates the process:
  \<^verbatim>\<open>input\<close> is tested with \<^verbatim>\<open>is not None\<close> and makes standard input a pipe,
  \<^verbatim>\<open>capture_output\<close> is tested for truth and makes standard output and standard
  error pipes, and either raises \<^verbatim>\<open>ValueError\<close> when the stream it would set is
  given too. The result is the keywords handed on to \<^verbatim>\<open>Popen\<close>, where a stream
  keyword that is absent or \<^verbatim>\<open>None\<close> means that the child inherits the stream of the
  parent. \<^verbatim>\<open>subprocess.PIPE\<close> is \<open>-1\<close>.
\<close>

datatype stdio = Inherited | Redirected pyval

definition is_given :: "kwargs \<Rightarrow> string \<Rightarrow> bool" where
  "is_given kw k = (case map_of kw k of None \<Rightarrow> False | Some PyNone \<Rightarrow> False
                    | Some v \<Rightarrow> True)"

fun truthy :: "pyval \<Rightarrow> bool" where
  "truthy PyNone = False"
| "truthy (PyBool b) = b"
| "truthy (PyInt n) = (n \<noteq> 0)"
| "truthy (PyStr s) = (s \<noteq> [])"

definition is_true :: "kwargs \<Rightarrow> string \<Rightarrow> bool" where
  "is_true kw k = (case map_of kw k of None \<Rightarrow> False | Some v \<Rightarrow> truthy v)"

definition popen_kwargs :: "kwargs \<Rightarrow> string + kwargs" where
  "popen_kwargs kw =
     (if is_given kw ''input'' \<and> is_given kw ''stdin''
      then Inl ''stdin and input arguments may not both be used.''
      else if is_true kw ''capture_output'' \<and> (is_given kw ''stdout'' \<or> is_given kw ''stderr'')
      then Inl ''stdout and stderr arguments may not be used with capture_output.''
      else Inr ((if is_true kw ''capture_output''
                 then [(''stdout'', PyInt (- 1)), (''stderr'', PyInt (- 1))] else [])
                @ (if is_given kw ''input'' then [(''stdin'', PyInt (- 1))] else [])
                @ kw))"

definition child_stream :: "kwargs \<Rightarrow> string \<Rightarrow> string + stdio" where
  "child_stream kw name =
     (case popen_kwargs kw of
        Inl e \<Rightarrow> Inl e
      | Inr pk \<Rightarrow> Inr (case map_of pk name of
                         None \<Rightarrow> Inherited
                       | Some PyNone \<Rightarrow> Inherited
                       | Some v \<Rightarrow> Redirected v))"

subsection \<open>The script on the standard output of its host\<close>

text \<open>
  The text that \<^verbatim>\<open>sys.stdout\<close> holds at the end of a trace: what was buffered since
  the last write.
\<close>

fun pending :: "string \<Rightarrow> event list \<Rightarrow> string" where
  "pending acc [] = acc"
| "pending acc (Buffered s # es) = pending (acc @ s) es"
| "pending acc (Stdout s # es) = pending [] es"
| "pending acc (Spawn a kw # es) = pending acc es"

definition buffer_size :: nat where
  "buffer_size = 8192"

text \<open>
  \<^verbatim>\<open>print(s)\<close> as the interpreter runs it. A block-buffered \<^verbatim>\<open>sys.stdout\<close> keeps
  the line in memory while the buffer has room, and nothing reaches standard output; a
  line-buffered or unbuffered one writes the line during the call. A write that fails
  raises its exception out of \<^verbatim>\<open>print\<close>. (The two buffers of the interpreter are
  taken as one of 8192 characters.)
\<close>

definition console_print :: "string \<Rightarrow> unit py" where
  "console_print s = (\<lambda>h t.
     if stdout_buffering h = BlockBuffered
        \<and> length (pending [] t @ s @ [CHR 0x0A]) \<le> buffer_size
     then (Return (), t @ [Buffered (s @ [CHR 0x0A])])
     else (case stdout_error h of
             None \<Rightarrow> (Return (), t @ [Stdout (pending [] t @ s @ [CHR 0x0A])])
           | Some (c, m) \<Rightarrow> (Raise (PyError c m), t)))"

text \<open>Lines 12 to 24 and 27 to 28 again, with this \<^verbatim>\<open>print\<close>.\<close>

definition main_console :: "int py" where
  "main_console =
     bind_py (console_print (''Running: '' @ str_join '' '' cmd)) (\<lambda>_.
     bind_py (subprocess_run cmd []) (\<lambda>result.
     return_py (returncode result)))"

definition run_clippy_module_console :: "string \<Rightarrow> unit py" where
  "run_clippy_module_console name =
     (if name = ''__main__'' then bind_py main_console sys_exit else return_py ())"

text \<open>
  The interpreter flushes \<^verbatim>\<open>sys.stdout\<close> when it exits: pending text is written
  then, and if that write fails the exit status is 120, whatever the status was.
\<close>

definition flush_stdout :: "host \<Rightarrow> event list \<Rightarrow> bool \<times> event list" where
  "flush_stdout h t =
     (if pending [] t = [] then (True, t)
      else (case stdout_error h of
              None \<Rightarrow> (True, t @ [Stdout (pending [] t)])
            | Some e \<Rightarrow> (False, t)))"

record run =
  ending :: process_end
  flushed :: bool
  events :: "event list"

definition python3_console :: "host \<Rightarrow> run" where
  "python3_console h =
     (case run_clippy_module_console ''__main__'' h [] of
        (Blocked, t) \<Rightarrow> \<lparr>ending = Hung, flushed = True, events = t\<rparr>
      | (Return u, t) \<Rightarrow>
          \<lparr>ending = Exited 0, flushed = fst (flush_stdout h t), events = snd (flush_stdout h t)\<rparr>
      | (Raise (SystemExit n), t) \<Rightarrow>
          \<lparr>ending = Exited n, flushed = fst (flush_stdout h t), events = snd (flush_stdout h t)\<rparr>
      | (Raise (PyError c m), t) \<Rightarrow>
          \<lparr>ending = Uncaught c m, flushed = fst (flush_stdout h t),
           events = snd (flush_stdout h t)\<rparr>)"

definition wait_status :: "run \<Rightarrow> int option" where
  "wait_status r =
     (case ending r of
        Hung \<Rightarrow> None
      | Exited n \<Rightarrow> (if flushed r then exit_status (Exited n) else Some 120)
      | Uncaught c m \<Rightarrow> (if flushed r then exit_status (Uncaught c m) else Some 120))"

subsection \<open>Hosts to run the script on\<close>

text \<open>A host where \<^verbatim>\<open>cargo\<close> is installed and clippy finds something to deny
  (cargo's own failure status is 101), and a host with no \<^verbatim>\<open>cargo\<close> on the search path.\<close>

definition host_clippy_fails :: host where
  "host_clippy_fails =
     \<lparr>argv = [''contrib/run_clippy.py''],
      environ = (\<lambda>v. None),
      os_spawn = (\<lambda>a kw. case a of
                     [] \<Rightarrow> LaunchFailure ''IndexError'' ''list index out of range''
                   | p # ps \<Rightarrow> if p = ''cargo'' then Completed 101
                              else LaunchFailure ''FileNotFoundError'' p),
      stdout_buffering = LineBuffered,
      stdout_error = None\<rparr>"

definition host_no_cargo :: host where
  "host_no_cargo =
     \<lparr>argv = [''contrib/run_clippy.py''],
      environ = (\<lambda>v. None),
      os_spawn = (\<lambda>a kw. case a of
                     [] \<Rightarrow> LaunchFailure ''IndexError'' ''list index out of range''
                   | p # ps \<Rightarrow> LaunchFailure ''FileNotFoundError''
                                (''[Errno 2] No such file or directory: '' @ p)),
      stdout_buffering = LineBuffered,
      stdout_error = None\<rparr>"

text \<open>
  Hosts with \<^verbatim>\<open>cargo\<close> installed: one where the child is killed by signal 9, which
  \<^verbatim>\<open>subprocess.run\<close> reports as the return code \<open>-9\<close>; one where the script runs as
  a hook with its standard output on a pipe and clippy fails; one where standard output is
  a full device, block-buffered, and clippy succeeds; and one where standard output is a
  full device and the interpreter runs unbuffered.
\<close>

definition cargo_gives :: "int \<Rightarrow> string list \<Rightarrow> kwargs \<Rightarrow> spawn_result" where
  "cargo_gives n = (\<lambda>a kw. case a of
       [] \<Rightarrow> LaunchFailure ''IndexError'' ''list index out of range''
     | p # ps \<Rightarrow> if p = ''cargo'' then Completed n
                else LaunchFailure ''FileNotFoundError'' p)"

definition host_child_killed :: host where
  "host_child_killed =
     \<lparr>argv = [''contrib/run_clippy.py''], environ = (\<lambda>v. None),
      os_spawn = cargo_gives (- 9),
      stdout_buffering = LineBuffered, stdout_error = None\<rparr>"


definition host_full_buffered :: host where
  "host_full_buffered =
     \<lparr>argv = [''contrib/run_clippy.py''], environ = (\<lambda>v. None),
      os_spawn = cargo_gives 0,
      stdout_buffering = BlockBuffered,
      stdout_error = Some (''OSError'', ''[Errno 28] No space left on device'')\<rparr>"

definition host_full_unbuffered :: host where
  "host_full_unbuffered =
     \<lparr>argv = [''contrib/run_clippy.py''], environ = (\<lambda>v. None),
      os_spawn = cargo_gives 0,
      stdout_buffering = Unbuffered,
      stdout_error = Some (''OSError'', ''[Errno 28] No space left on device'')\<rparr>"

section \<open>Properties\<close>

subsection \<open>What one run of \<open>main\<close> does\<close>

lemma main_run:
  "main h t =
     (case os_spawn h cmd [] of
        LaunchFailure c m \<Rightarrow> Raise (PyError c m)
      | Completed n \<Rightarrow> Return n
      | NeverExits \<Rightarrow> Blocked,
      t @ [Stdout (''Running: '' @ str_join '' '' cmd @ [CHR 0x0A]), Spawn cmd []])"
  by (simp add: main_def bind_py_def py_print_def subprocess_run_def return_py_def
      split: spawn_result.split)

lemma main_trace:
  "snd (main h t) = t @ [Stdout (''Running: '' @ str_join '' '' cmd @ [CHR 0x0A]), Spawn cmd []]"
  by (simp add: main_run)

lemma rendered_cmd:
  "str_join '' '' cmd =
     ''cargo clippy --workspace --all-features --all-targets --target-dir target/clippy -- -D warnings -A mismatched_lifetime_syntaxes''"
  by (simp add: cmd_def)

lemma module_main_run:
  "run_clippy_module ''__main__'' h t =
     (case os_spawn h cmd [] of
        LaunchFailure c m \<Rightarrow> Raise (PyError c m)
      | Completed n \<Rightarrow> Raise (SystemExit n)
      | NeverExits \<Rightarrow> Blocked,
      t @ [Stdout (''Running: '' @ str_join '' '' cmd @ [CHR 0x0A]), Spawn cmd []])"
  by (simp add: run_clippy_module_def bind_py_def sys_exit_def main_run
      split: spawn_result.split)

lemma python3_run:
  "python3 h =
     (case os_spawn h cmd [] of
        LaunchFailure c m \<Rightarrow> Uncaught c m
      | Completed n \<Rightarrow> Exited n
      | NeverExits \<Rightarrow> Hung,
      [Stdout (''Running: '' @ str_join '' '' cmd @ [CHR 0x0A]), Spawn cmd []])"
  by (simp add: python3_def module_main_run split: spawn_result.split)

lemma python3_trace: "snd (python3 h) = snd (main h [])"
  by (simp add: python3_run main_run)

lemma tokens_of_line:
  "str_split (''Running: '' @ str_join '' '' cmd @ [CHR 0x0A]) = ''Running:'' # cmd"
  by (simp add: rendered_cmd str_split_def is_space_def cmd_def)

lemma tokens_of_cmd: "str_split (str_join '' '' cmd) = cmd"
  by (simp add: rendered_cmd str_split_def is_space_def cmd_def)


lemma tokens_after_label:
  "str_split (drop (length ''Running: '') (''Running: '' @ str_join '' '' cmd @ [CHR 0x0A])) = cmd"
  by (simp add: rendered_cmd str_split_def is_space_def cmd_def)

lemma main_stdout:
  "stdout_text (snd (main h [])) = ''Running: '' @ str_join '' '' cmd @ [CHR 0x0A]"
  by (simp add: main_run)

lemma clippy_fails_spawn: "os_spawn host_clippy_fails cmd [] = Completed 101"
  by (simp add: host_clippy_fails_def cmd_def)

lemma no_cargo_spawn:
  "os_spawn host_no_cargo cmd [] =
     LaunchFailure ''FileNotFoundError'' ''[Errno 2] No such file or directory: cargo''"
  by (simp add: host_no_cargo_def cmd_def)

subsection \<open>What one run on the standard output of the host does\<close>

lemma line_fits:
  "length ((''Running: '' @ str_join '' '' cmd) @ [CHR 0x0A]) \<le> buffer_size"
  by (simp add: rendered_cmd buffer_size_def)

lemma console_print_first:
  "length (s @ [CHR 0x0A]) \<le> buffer_size \<Longrightarrow>
   console_print s h [] =
     (if stdout_buffering h = BlockBuffered
      then (Return (), [Buffered (s @ [CHR 0x0A])])
      else (case stdout_error h of
              None \<Rightarrow> (Return (), [Stdout (s @ [CHR 0x0A])])
            | Some (c, m) \<Rightarrow> (Raise (PyError c m), [])))"
  by (simp add: console_print_def split: option.split)

lemma console_print_line:
  "console_print (''Running: '' @ str_join '' '' cmd) h [] =
     (if stdout_buffering h = BlockBuffered
      then (Return (), [Buffered ((''Running: '' @ str_join '' '' cmd) @ [CHR 0x0A])])
      else (case stdout_error h of
              None \<Rightarrow> (Return (), [Stdout ((''Running: '' @ str_join '' '' cmd) @ [CHR 0x0A])])
            | Some (c, m) \<Rightarrow> (Raise (PyError c m), [])))"
  by (rule console_print_first [OF line_fits])

lemma main_console_run:
  "main_console h [] =
     (if stdout_buffering h = BlockBuffered
      then (case os_spawn h cmd [] of
              LaunchFailure c m \<Rightarrow> Raise (PyError c m)
            | Completed n \<Rightarrow> Return n
            | NeverExits \<Rightarrow> Blocked,
            [Buffered (''Running: '' @ str_join '' '' cmd @ [CHR 0x0A]), Spawn cmd []])
      else (case stdout_error h of
              None \<Rightarrow>
                (case os_spawn h cmd [] of
                   LaunchFailure c m \<Rightarrow> Raise (PyError c m)
                 | Completed n \<Rightarrow> Return n
                 | NeverExits \<Rightarrow> Blocked,
                 [Stdout (''Running: '' @ str_join '' '' cmd @ [CHR 0x0A]), Spawn cmd []])
            | Some (c, m) \<Rightarrow> (Raise (PyError c m), [])))"
  unfolding main_console_def bind_py_def console_print_line
  by (simp add: subprocess_run_def return_py_def split: spawn_result.split option.split)

lemma module_console_run:
  "run_clippy_module_console ''__main__'' h [] =
     (case main_console h [] of
        (Return n, t) \<Rightarrow> (Raise (SystemExit n), t)
      | (Raise e, t) \<Rightarrow> (Raise e, t)
      | (Blocked, t) \<Rightarrow> (Blocked, t))"
  by (simp add: run_clippy_module_console_def bind_py_def sys_exit_def
      split: prod.split result.split)

lemma console_is_main:
  "stdout_buffering h \<noteq> BlockBuffered \<Longrightarrow> stdout_error h = None \<Longrightarrow>
     main_console h [] = main h []"
  by (simp add: main_console_run main_run)

lemma spawn_of_cargo_gives: "cargo_gives n cmd [] = Completed n"
  by (simp add: cargo_gives_def cmd_def)

subsection \<open>The exit status\<close>

text \<open>
  Claim C1, as stated, fails. A child killed by signal 9 has the return code \<open>-9\<close>:
  \<open>main\<close> returns \<open>-9\<close> and hands it to \<^verbatim>\<open>sys.exit\<close>, but the status of the
  wrapper is 247. And where standard output is block-buffered and full, a child that
  returns 0 leaves the wrapper with the status 120.
\<close>

theorem returncode_propagated_counterexample:
  "os_spawn host_child_killed cmd [] = Completed (- 9) \<and>
   fst (main_console host_child_killed []) = Return (- 9) \<and>
   wait_status (python3_console host_child_killed) = Some 247 \<and>
   wait_status (python3_console host_child_killed) \<noteq> Some (- 9) \<and>
   os_spawn host_full_buffered cmd [] = Completed 0 \<and>
   wait_status (python3_console host_full_buffered) = Some 120 \<and>
   wait_status (python3_console host_full_buffered) \<noteq> Some 0"
  by (simp add: host_child_killed_def host_full_buffered_def spawn_of_cargo_gives
      main_console_run python3_console_def module_console_run wait_status_def
      flush_stdout_def)

text \<open>
  Claim C1, amended. Whenever the child ends with the return code \<open>N\<close>, whatever
  integer it is, and writing to standard output does not fail, \<open>main\<close> returns \<open>N\<close>
  unchanged and the module run as the main program hands \<open>N\<close> itself to \<^verbatim>\<open>sys.exit\<close>;
  the status of the wrapper's process is \<open>N mod 256\<close>, which is \<open>N\<close> itself for
  every exit status from 0 to 255: 0 for a child that succeeded, and a non-zero exit
  status untranslated.
\<close>

theorem returncode_propagated:
  "os_spawn h cmd [] = Completed N \<Longrightarrow> stdout_error h = None \<Longrightarrow>
     fst (main_console h []) = Return N \<and>
     fst (run_clippy_module_console ''__main__'' h []) = Raise (SystemExit N) \<and>
     ending (python3_console h) = Exited N \<and>
     wait_status (python3_console h) = Some (N mod 256) \<and>
     (0 \<le> N \<and> N \<le> 255 \<longrightarrow> wait_status (python3_console h) = Some N)"
  by (simp add: main_console_run python3_console_def module_console_run wait_status_def
      flush_stdout_def)

theorem returncode_propagated_witness:
  "os_spawn host_clippy_fails cmd [] = Completed 101 \<and>
   stdout_error host_clippy_fails = None \<and>
   (0::int) \<le> 101 \<and> (101::int) \<le> 255 \<and>
   fst (main_console host_clippy_fails []) = Return 101 \<and>
   fst (run_clippy_module_console ''__main__'' host_clippy_fails []) =
     Raise (SystemExit 101) \<and>
   wait_status (python3_console host_clippy_fails) = Some 101"
proof -
  have e: "stdout_error host_clippy_fails = None"
    by (simp add: host_clippy_fails_def)
  show ?thesis
    using returncode_propagated [OF clippy_fails_spawn e] clippy_fails_spawn e by simp
qed

subsection \<open>The printed line\<close>

text \<open>
  Claim C2, as stated, fails: the line the script prints starts with the label
  \<^verbatim>\<open>Running:\<close>, so its whitespace tokens are not the argument sequence; the first
  token is the label and not the tool name, and there are thirteen tokens, not twelve.
\<close>

theorem printed_tokens_counterexample:
  "str_split (stdout_text (snd (main host_clippy_fails []))) \<noteq> cmd"
proof -
  have "str_split (stdout_text (snd (main host_clippy_fails []))) = ''Running:'' # cmd"
    by (simp only: main_stdout tokens_of_line)
  then show ?thesis
    by simp
qed

text \<open>
  Claim C2, amended. On every host the standard output of \<open>main\<close> is one line, the
  label \<^verbatim>\<open>Running: \<close> followed by the arguments joined with single spaces. Its whitespace
  tokens are the label \<^verbatim>\<open>Running:\<close> followed by exactly the argument sequence in its
  order, with no other token; the part after the label tokenises to the argument
  sequence itself.
\<close>

theorem printed_tokens:
  "stdout_text (snd (main h [])) = ''Running: '' @ str_join '' '' cmd @ [CHR 0x0A] \<and>
   str_split (stdout_text (snd (main h []))) = ''Running:'' # cmd \<and>
   str_split (drop (length ''Running: '') (stdout_text (snd (main h [])))) = cmd \<and>
   str_split (str_join '' '' cmd) = cmd"
  by (simp only: main_stdout tokens_of_line tokens_after_label tokens_of_cmd simp_thms)

subsection \<open>A child that cannot be started\<close>

text \<open>
  Claim C3. When the tool cannot be found or started, the exception that
  \<^verbatim>\<open>subprocess.run\<close> raises leaves \<open>main\<close> as it is, neither caught nor translated,
  and leaves the module the same way, so \<^verbatim>\<open>sys.exit\<close> is never reached. The
  interpreter ends the process with the status 1, which is not 0, and reports the
  exception's class and message; a run whose child ended with a return code \<open>N\<close>,
  zero or not, reports no error text, so the two are told apart by the error text even
  where the status is the same.
\<close>

theorem launch_failure_propagates:
  "os_spawn h cmd [] = LaunchFailure c m \<Longrightarrow> os_spawn h' cmd [] = Completed N \<Longrightarrow>
     fst (main h []) = Raise (PyError c m) \<and>
     fst (run_clippy_module ''__main__'' h []) = Raise (PyError c m) \<and>
     fst (python3 h) = Uncaught c m \<and>
     exit_status (fst (python3 h)) = Some 1 \<and>
     exit_status (fst (python3 h)) \<noteq> Some 0 \<and>
     error_text (fst (python3 h)) = c @ '': '' @ m \<and>
     error_text (fst (python3 h')) = [] \<and>
     error_text (fst (python3 h)) \<noteq> error_text (fst (python3 h'))"
  by (simp add: main_run module_main_run python3_run)

theorem launch_failure_propagates_witness:
  "os_spawn host_no_cargo cmd [] =
     LaunchFailure ''FileNotFoundError'' ''[Errno 2] No such file or directory: cargo'' \<and>
   os_spawn host_clippy_fails cmd [] = Completed 101 \<and>
   fst (main host_no_cargo []) =
     Raise (PyError ''FileNotFoundError'' ''[Errno 2] No such file or directory: cargo'') \<and>
   fst (python3 host_no_cargo) =
     Uncaught ''FileNotFoundError'' ''[Errno 2] No such file or directory: cargo'' \<and>
   exit_status (fst (python3 host_no_cargo)) = Some 1 \<and>
   error_text (fst (python3 host_no_cargo)) =
     ''FileNotFoundError: [Errno 2] No such file or directory: cargo'' \<and>
   error_text (fst (python3 host_clippy_fails)) = []"
  using launch_failure_propagates [of host_no_cargo "''FileNotFoundError''"
      "''[Errno 2] No such file or directory: cargo''" host_clippy_fails 101]
    no_cargo_spawn clippy_fails_spawn
  by simp

subsection \<open>The argument vector\<close>

text \<open>
  Claim C4. The argument vector does not depend on the host: two runs of \<open>main\<close> on any
  two hosts, whatever their command lines, environment variables and operating systems,
  create their child with the same argument vector and keyword arguments, print the same
  text, and leave the same trace altogether.
\<close>

theorem cmd_independent_of_host:
  "spawns (snd (main h1 [])) = spawns (snd (main h2 [])) \<and>
   map fst (spawns (snd (main h1 []))) = [cmd] \<and>
   stdout_text (snd (main h1 [])) = stdout_text (snd (main h2 [])) \<and>
   snd (main h1 []) = snd (main h2 [])"
  by (simp add: main_trace)




text \<open>
  Claim C6. The vector handed to the process creation is the vector that was built and
  rendered: the one process-creation event carries \<open>cmd\<close>, element for element, and
  the printed text is the rendering of that same list.
\<close>

theorem cmd_not_mutated:
  "\<exists>a. map fst (spawns (snd (main h []))) = [a] \<and>
        stdout_text (snd (main h [])) = ''Running: '' @ str_join '' '' a @ [CHR 0x0A] \<and>
        a = cmd \<and> length a = length cmd \<and> list_all2 (=) a cmd"
  by (simp add: main_trace list.rel_eq)

subsection \<open>The process creation\<close>

text \<open>
  Claim C7, as stated, fails. Where standard output is unbuffered and full,
  \<^verbatim>\<open>print\<close> raises \<^verbatim>\<open>OSError\<close> in line 22, nothing catches it, and the
  process creation of line 23 is never reached: that run creates no child.
\<close>

theorem single_spawn_counterexample:
  "main_console host_full_unbuffered [] =
     (Raise (PyError ''OSError'' ''[Errno 28] No space left on device''), []) \<and>
   spawns (events (python3_console host_full_unbuffered)) = [] \<and>
   length (spawns (snd (main_console host_full_unbuffered []))) \<noteq> 1"
  by (simp add: host_full_unbuffered_def main_console_run python3_console_def
      module_console_run flush_stdout_def)

text \<open>
  Claim C7, amended. Every run of \<open>main\<close>, and every run of the script, makes at most
  one process-creation call, and exactly one whenever the \<^verbatim>\<open>print\<close> call returns,
  whether the child returns zero, returns something else, cannot be started or never
  ends: nothing is retried. The call carries no \<^verbatim>\<open>timeout\<close>.
\<close>

theorem single_spawn:
  "length (spawns (snd (main_console h []))) \<le> 1 \<and>
   length (spawns (events (python3_console h))) \<le> 1 \<and>
   map_of (spawn_kwargs (snd (main_console h []))) ''timeout'' = None \<and>
   map_of (spawn_kwargs (events (python3_console h))) ''timeout'' = None \<and>
   (fst (console_print (''Running: '' @ str_join '' '' cmd) h []) = Return () \<longrightarrow>
      spawns (snd (main_console h [])) = [(cmd, [])] \<and>
      spawns (events (python3_console h)) = [(cmd, [])])"
proof -
  have p: "fst (console_print (''Running: '' @ str_join '' '' cmd) h []) = Return () \<longrightarrow>
             stdout_buffering h = BlockBuffered \<or> stdout_error h = None"
    by (simp only: console_print_line) (auto split: option.split)
  have a: "length (spawns (snd (main_console h []))) \<le> 1 \<and>
           length (spawns (events (python3_console h))) \<le> 1 \<and>
           map_of (spawn_kwargs (snd (main_console h []))) ''timeout'' = None \<and>
           map_of (spawn_kwargs (events (python3_console h))) ''timeout'' = None"
    by (auto simp add: main_console_run python3_console_def module_console_run
        flush_stdout_def split: option.split spawn_result.split)
  have b: "stdout_buffering h = BlockBuffered \<or> stdout_error h = None \<longrightarrow>
             spawns (snd (main_console h [])) = [(cmd, [])] \<and>
             spawns (events (python3_console h)) = [(cmd, [])]"
    by (auto simp add: main_console_run python3_console_def module_console_run
        flush_stdout_def split: option.split spawn_result.split)
  from p a b show ?thesis
    by blast
qed

theorem single_spawn_witness:
  "fst (console_print (''Running: '' @ str_join '' '' cmd) host_clippy_fails []) = Return () \<and>
   spawns (snd (main_console host_clippy_fails [])) = [(cmd, [])] \<and>
   spawns (events (python3_console host_clippy_fails)) = [(cmd, [])]"
proof -
  have e: "fst (console_print (''Running: '' @ str_join '' '' cmd) host_clippy_fails []) =
             Return ()"
    by (simp only: console_print_line) (simp add: host_clippy_fails_def)
  show ?thesis
    using single_spawn [of host_clippy_fails] e by blast
qed

text \<open>
  Claim C8. The script makes its process-creation call, with the argument vector
  \<open>cmd\<close>, and supplies no keyword argument at all: no \<^verbatim>\<open>stdin\<close>, \<^verbatim>\<open>stdout\<close> or
  \<^verbatim>\<open>stderr\<close> redirection, no \<^verbatim>\<open>input\<close>, no \<^verbatim>\<open>capture_output\<close>, no
  \<^verbatim>\<open>bufsize\<close>. So \<^verbatim>\<open>subprocess.run\<close> accepts the call and the child's standard
  input, standard output and standard error are the ones of the wrapper. No run of the
  script, on any standard output, supplies a keyword argument either.
\<close>

theorem child_streams_inherited:
  "spawns (snd (main h [])) = [(cmd, [])] \<and>
   spawn_kwargs (snd (main h [])) = [] \<and>
   spawn_kwargs (events (python3_console h)) = [] \<and>
   map_of (spawn_kwargs (snd (main h []))) ''stdout'' = None \<and>
   map_of (spawn_kwargs (snd (main h []))) ''stderr'' = None \<and>
   map_of (spawn_kwargs (snd (main h []))) ''stdin'' = None \<and>
   map_of (spawn_kwargs (snd (main h []))) ''bufsize'' = None \<and>
   is_true (spawn_kwargs (snd (main h []))) ''capture_output'' = False \<and>
   is_given (spawn_kwargs (snd (main h []))) ''input'' = False \<and>
   popen_kwargs (spawn_kwargs (snd (main h []))) = Inr [] \<and>
   child_stream (spawn_kwargs (snd (main h []))) ''stdout'' = Inr Inherited \<and>
   child_stream (spawn_kwargs (snd (main h []))) ''stderr'' = Inr Inherited \<and>
   child_stream (spawn_kwargs (snd (main h []))) ''stdin'' = Inr Inherited"
proof -
  have "spawn_kwargs (events (python3_console h)) = []"
    by (auto simp add: main_console_run python3_console_def module_console_run
        flush_stdout_def split: option.split spawn_result.split)
  then show ?thesis
    by (simp add: main_trace is_true_def is_given_def popen_kwargs_def child_stream_def)
qed

text \<open>
  Claim C9. The argument vector of the one process creation is the list of these twelve
  strings. The output directory is \<^verbatim>\<open>target/clippy\<close>, the value of \<^verbatim>\<open>--target-dir\<close>;
  the token \<^verbatim>\<open>--\<close> stands between the tool's flags and the lint-level arguments; and
  the one lint allowed, after \<^verbatim>\<open>-A\<close>, is \<^verbatim>\<open>mismatched_lifetime_syntaxes\<close>.
\<close>

theorem cmd_value:
  "map fst (spawns (snd (main h []))) =
     [[''cargo'', ''clippy'', ''--workspace'', ''--all-features'', ''--all-targets'',
       ''--target-dir'', ''target/clippy'', ''--'', ''-D'', ''warnings'', ''-A'',
       ''mismatched_lifetime_syntaxes'']] \<and>
   length cmd = 12 \<and>
   take 5 cmd = [''cargo'', ''clippy'', ''--workspace'', ''--all-features'', ''--all-targets''] \<and>
   cmd ! 5 = ''--target-dir'' \<and>
   cmd ! 6 = ''target/clippy'' \<and>
   cmd ! 7 = ''--'' \<and>
   drop 8 cmd = [''-D'', ''warnings'', ''-A'', ''mismatched_lifetime_syntaxes''] \<and>
   filter (\<lambda>x. x = ''--'') cmd = [''--'']"
  by (simp add: main_trace cmd_def)

subsection \<open>Importing the module\<close>

text \<open>
  Claim C10. Under any module name other than \<^verbatim>\<open>__main__\<close> the module body does
  nothing on the host: the trace stays empty (no line printed, no process created) and
  the body ends normally, without \<^verbatim>\<open>SystemExit\<close>. And \<open>main\<close> itself never ends the
  process: it returns the integer return code when the child ends, and otherwise passes
  on the launch error or blocks, but it never raises \<^verbatim>\<open>SystemExit\<close>; that happens
  only in the guarded statement of the module body.
\<close>

theorem import_no_effect:
  "name \<noteq> ''__main__'' \<Longrightarrow>
     run_clippy_module name h [] = (Return (), []) \<and>
     fst (main h []) =
       (case os_spawn h cmd [] of
          LaunchFailure c m \<Rightarrow> Raise (PyError c m)
        | Completed k \<Rightarrow> Return k
        | NeverExits \<Rightarrow> Blocked) \<and>
     fst (main h []) \<noteq> Raise (SystemExit n) \<and>
     run_clippy_module ''__main__'' h [] = bind_py main sys_exit h []"
  by (simp add: run_clippy_module_def return_py_def main_run split: spawn_result.split)

theorem import_no_effect_witness:
  "''run_clippy'' \<noteq> ''__main__'' \<and>
   run_clippy_module ''run_clippy'' host_clippy_fails [] = (Return (), []) \<and>
   fst (main host_clippy_fails []) = Return 101 \<and>
   fst (main host_clippy_fails []) \<noteq> Raise (SystemExit 101)"
  using import_no_effect [of "''run_clippy''" host_clippy_fails 101] clippy_fails_spawn
  by simp

end
